theory Spec2Isabelle
  imports Complex_Main "HOL-Library.Multiset"
begin

section \<open>Book Finder: result records and the saved list\<close>

text \<open>
  A result record of the search endpoint, with the ten fields that \<open>buildUrl\<close> asks for.
  Strings are byte strings (UTF-8). Every record of the endpoint has a key and a title;
  a field that a record may lack is an \<open>option\<close>, where \<open>None\<close> is JavaScript's
  \<open>undefined\<close>. Records are compared by value.
\<close>

record book =
  key :: string
  title :: string
  author_name :: "string list option"
  cover_i :: "int option"
  first_publish_year :: "int option"
  ebook_access :: "string option"
  has_fulltext :: "bool option"
  language :: "string list option"
  edition_count :: "int option"
  subject :: "string list option"

subsection \<open>toggleSave\<close>

text \<open>
  \<^verbatim>\<open>
  function toggleSave(book) {
    const id = book.key;
    setSaved((prev) => {
      const exists = prev.find((b) => b.key === id);
      if (exists) return prev.filter((b) => b.key !== id);
      return [...prev, book];
    });
  }
  \<close>
  \<open>toggleSave\<close> is the updater handed to \<open>setSaved\<close>: from the previous saved list to the
  next one. \<open>prev.find\<close> yields the first matching entry or \<open>undefined\<close>; an entry is an
  object and therefore truthy, so \<open>if (exists)\<close> tests whether an entry was found.
\<close>

definition toggleSave :: "book \<Rightarrow> book list \<Rightarrow> book list" where
  "toggleSave book prev =
     (let id = key book;
          exists = find (\<lambda>b. key b = id) prev
      in case exists of
           Some _ \<Rightarrow> filter (\<lambda>b. key b \<noteq> id) prev
         | None \<Rightarrow> prev @ [book])"

text \<open>\<^verbatim>\<open>const isSaved = (book) => saved.some((b) => b.key === book.key);\<close>\<close>

definition isSaved :: "book list \<Rightarrow> book \<Rightarrow> bool" where
  "isSaved saved book = list_ex (\<lambda>b. key b = key book) saved"

section \<open>Platform functions used by the component\<close>

subsection \<open>String.prototype.trim\<close>

text \<open>
  The UTF-8 encodings of ECMAScript's WhiteSpace and LineTerminator code points:
  U+0009 to U+000D, U+0020, U+00A0, U+1680, U+2000 to U+200A, U+2028, U+2029, U+202F,
  U+205F, U+3000 and U+FEFF.
\<close>

definition whitespace :: "string list" where
  "whitespace =
     [[CHR 0x09], [CHR 0x0A], [CHR 0x0B], [CHR 0x0C], [CHR 0x0D], [CHR 0x20],
      [CHR 0xC2, CHR 0xA0], [CHR 0xE1, CHR 0x9A, CHR 0x80]] @
     map (\<lambda>n. [CHR 0xE2, CHR 0x80, char_of (0x80 + n)]) [0 ..< 11 :: nat] @
     [[CHR 0xE2, CHR 0x80, CHR 0xA8], [CHR 0xE2, CHR 0x80, CHR 0xA9],
      [CHR 0xE2, CHR 0x80, CHR 0xAF], [CHR 0xE2, CHR 0x81, CHR 0x9F],
      [CHR 0xE3, CHR 0x80, CHR 0x80], [CHR 0xEF, CHR 0xBB, CHR 0xBF]]"

text \<open>\<open>strip ws s\<close> removes leading occurrences of the sequences in \<open>ws\<close> from \<open>s\<close>.\<close>

function strip :: "string list \<Rightarrow> string \<Rightarrow> string" where
  "strip ws s =
     (case find (\<lambda>w. w \<noteq> [] \<and> take (length w) s = w) ws of
        None \<Rightarrow> s
      | Some w \<Rightarrow> strip ws (drop (length w) s))"
  by pat_completeness auto
termination
proof (relation "measure (\<lambda>(ws, s). length s)")
  show "wf (measure (\<lambda>(ws, s). length s))" by simp
next
  fix ws :: "string list" and s w :: string
  assume "find (\<lambda>w. w \<noteq> [] \<and> take (length w) s = w) ws = Some w"
  then have "w \<noteq> []" and "take (length w) s = w"
    by (auto simp: find_Some_iff)
  then have "s \<noteq> []" and "0 < length w" by auto
  then show "((ws, drop (length w) s), (ws, s)) \<in> measure (\<lambda>(ws, s). length s)"
    by simp
qed

declare strip.simps [simp del]

definition trim :: "string \<Rightarrow> string" where
  "trim s = rev (strip (map rev whitespace) (rev (strip whitespace s)))"

subsection \<open>String(n) for an integer and Array.prototype.join\<close>

fun digits :: "nat \<Rightarrow> string" where
  "digits n =
     (if n < 10 then [char_of (48 + n)] else digits (n div 10) @ [char_of (48 + n mod 10)])"

declare digits.simps [simp del]

definition String :: "int \<Rightarrow> string" where
  "String n = (if n < 0 then CHR ''-'' # digits (nat (- n)) else digits (nat n))"

fun join :: "string \<Rightarrow> string list \<Rightarrow> string" where
  "join sep [] = []"
| "join sep [x] = x"
| "join sep (x # y # ys) = x @ sep @ join sep (y # ys)"

subsection \<open>URLSearchParams and encodeURIComponent\<close>

text \<open>
  A \<open>URLSearchParams\<close> object is its list of name-value pairs. \<open>set\<close> overwrites the first
  pair of the name and removes the others, or appends a pair when there is none.
  \<open>toString\<close> is the application/x-www-form-urlencoded serializer: a space becomes \<open>+\<close>,
  the bytes of letters, digits and \<open>*-._\<close> stay, every other byte becomes \<open>%XX\<close>.
\<close>

type_synonym params = "(string \<times> string) list"

fun set_param :: "string \<Rightarrow> string \<Rightarrow> params \<Rightarrow> params" where
  "set_param n v [] = [(n, v)]"
| "set_param n v ((m, u) # ps) =
     (if m = n then (n, v) # filter (\<lambda>(k, _). k \<noteq> n) ps else (m, u) # set_param n v ps)"

definition get_param :: "params \<Rightarrow> string \<Rightarrow> string option" where
  "get_param ps n = map_of ps n"

definition hex_digit :: "nat \<Rightarrow> char" where
  "hex_digit n = ''0123456789ABCDEF'' ! (n mod 16)"

definition percent_encode :: "char \<Rightarrow> string" where
  "percent_encode c =
     [CHR ''%'', hex_digit (of_char c div 16), hex_digit (of_char c mod 16)]"

definition alphanumeric :: "char \<Rightarrow> bool" where
  "alphanumeric c =
     (let n = (of_char c :: nat)
      in (48 \<le> n \<and> n \<le> 57) \<or> (65 \<le> n \<and> n \<le> 90) \<or> (97 \<le> n \<and> n \<le> 122))"

definition urlencode_byte :: "char \<Rightarrow> string" where
  "urlencode_byte c =
     (if c = CHR '' '' then ''+''
      else if alphanumeric c \<or> c \<in> set ''*-._'' then [c]
      else percent_encode c)"

definition urlencode :: "string \<Rightarrow> string" where
  "urlencode s = concat (map urlencode_byte s)"

definition toString :: "params \<Rightarrow> string" where
  "toString ps = join ''&'' (map (\<lambda>(n, v). urlencode n @ ''='' @ urlencode v) ps)"

definition encodeURIComponent :: "string \<Rightarrow> string" where
  "encodeURIComponent s =
     concat (map (\<lambda>c. if alphanumeric c \<or> c \<in> set ''-_.!~*()'' \<or> c = CHR 0x27 then [c]
                       else percent_encode c) s)"

subsection \<open>Reading the parameters of a URL\<close>

text \<open>
  What \<open>new URL(url).searchParams\<close> yields, and what the endpoint sees: the query is the
  part between the first \<open>?\<close> and the fragment; the application/x-www-form-urlencoded
  parser splits it at every \<open>&\<close>, skips empty pieces, splits a piece at its first \<open>=\<close>,
  turns \<open>+\<close> into a space and decodes the \<open>%XX\<close> escapes.
\<close>

fun split_on :: "char \<Rightarrow> string \<Rightarrow> string list" where
  "split_on c [] = [[]]"
| "split_on c (x # xs) =
     (if x = c then [] # split_on c xs
      else (case split_on c xs of [] \<Rightarrow> [[x]] | y # ys \<Rightarrow> (x # y) # ys))"

definition hex_val :: "char \<Rightarrow> nat option" where
  "hex_val c =
     (let n = (of_char c :: nat)
      in if 48 \<le> n \<and> n \<le> 57 then Some (n - 48)
         else if 65 \<le> n \<and> n \<le> 70 then Some (n - 55)
         else if 97 \<le> n \<and> n \<le> 102 then Some (n - 87)
         else None)"

fun percent_decode :: "string \<Rightarrow> string" where
  "percent_decode (c # h # l # cs) =
     (if c = CHR ''%'' then
        (case (hex_val h, hex_val l) of
           (Some a, Some b) \<Rightarrow> char_of (16 * a + b) # percent_decode cs
         | _ \<Rightarrow> c # percent_decode (h # l # cs))
      else c # percent_decode (h # l # cs))"
| "percent_decode cs = cs"

definition form_decode :: "string \<Rightarrow> string" where
  "form_decode s = percent_decode (map (\<lambda>c. if c = CHR ''+'' then CHR '' '' else c) s)"

definition parse_urlencoded :: "string \<Rightarrow> params" where
  "parse_urlencoded s =
     map (\<lambda>bytes. (form_decode (takeWhile (\<lambda>c. c \<noteq> CHR ''='') bytes),
                   form_decode (drop 1 (dropWhile (\<lambda>c. c \<noteq> CHR ''='') bytes))))
       (filter (\<lambda>bytes. bytes \<noteq> []) (split_on CHR ''&'' s))"

definition searchParams :: "string \<Rightarrow> params" where
  "searchParams url =
     parse_urlencoded
       (drop 1 (dropWhile (\<lambda>c. c \<noteq> CHR ''?'') (takeWhile (\<lambda>c. c \<noteq> CHR ''#'') url)))"

subsection \<open>Array.prototype.sort with a comparator\<close>

text \<open>
  \<open>sort\<close> is stable and, for a consistent comparator, orders the array by it; the
  algorithm is left to the engine. The model is the stable insertion sort: an element
  goes before the first element that the comparator does not put before it.
\<close>

fun insert_cmp :: "('a \<Rightarrow> 'a \<Rightarrow> int) \<Rightarrow> 'a \<Rightarrow> 'a list \<Rightarrow> 'a list" where
  "insert_cmp cmp x [] = [x]"
| "insert_cmp cmp x (y # ys) =
     (if cmp x y \<le> 0 then x # y # ys else y # insert_cmp cmp x ys)"

definition array_sort :: "('a \<Rightarrow> 'a \<Rightarrow> int) \<Rightarrow> 'a list \<Rightarrow> 'a list" where
  "array_sort cmp xs = foldr (insert_cmp cmp) xs []"

subsection \<open>fetch\<close>

text \<open>
  The body of a response as \<open>res.json()\<close> parses it: \<open>docs\<close> is \<open>None\<close> when the body has
  no array of that name; the two counters are \<open>None\<close> when absent. \<open>json\<close> is \<open>None\<close> when
  parsing the body throws. A call of \<open>fetch\<close> either rejects or resolves to a response.
  The network answers successive calls with the outcomes in \<open>pending\<close> (rejecting when
  none is left) and records every requested URL in \<open>sent\<close>.
\<close>

record search_data =
  docs :: "book list option"
  numFound :: "int option"
  num_found :: "int option"

record response =
  ok :: bool
  status :: nat
  json :: "search_data option"

datatype fetch_outcome = Rejected | Resolved response

record network =
  pending :: "fetch_outcome list"
  sent :: "string list"

definition fetch :: "string \<Rightarrow> network \<Rightarrow> fetch_outcome \<times> network" where
  "fetch url net =
     (case pending net of
        [] \<Rightarrow> (Rejected, net\<lparr>sent := sent net @ [url]\<rparr>)
      | r # rs \<Rightarrow> (r, net\<lparr>pending := rs, sent := sent net @ [url]\<rparr>))"

datatype exn =
  FetchRejected | HttpError nat | SyntaxError | TypeError | SecurityError | QuotaExceededError

subsection \<open>localStorage and JSON\<close>

text \<open>
  Local storage holds string items. Access throws when the browser denies it, and a write
  throws when the browser does not accept it (the quota is the browser's business:
  \<open>accepts\<close> says which writes go through).
  \<open>JSON.parse\<close> and \<open>JSON.stringify\<close> are taken as given, at the type of the stored value;
  \<open>parse\<close> is \<open>None\<close> when \<open>JSON.parse\<close> throws.
\<close>

record local_storage =
  items :: "string \<rightharpoonup> string"
  denied :: bool
  accepts :: "string \<Rightarrow> string \<Rightarrow> bool"

definition getItem :: "local_storage \<Rightarrow> string \<Rightarrow> exn + string option" where
  "getItem ls k = (if denied ls then Inl SecurityError else Inr (items ls k))"

definition setItem :: "local_storage \<Rightarrow> string \<Rightarrow> string \<Rightarrow> exn + local_storage" where
  "setItem ls k v =
     (if denied ls then Inl SecurityError
      else if \<not> accepts ls k v then Inl QuotaExceededError
      else Inr (ls\<lparr>items := (items ls)(k \<mapsto> v)\<rparr>))"

record 'v JSON =
  parse :: "string \<Rightarrow> 'v option"
  stringify :: "'v \<Rightarrow> string"

section \<open>useLocalStorage\<close>

text \<open>
  \<^verbatim>\<open>
  function useLocalStorage(key, initialValue) {
    const [value, setValue] = useState(() => {
      try {
        const raw = localStorage.getItem(key);
        return raw ? JSON.parse(raw) : initialValue;
      } catch {
        return initialValue;
      }
    });
    useEffect(() => {
      try {
        localStorage.setItem(key, JSON.stringify(value));
      } catch {}
    }, [key, value]);
    return [value, setValue];
  }
  \<close>
  The hook has two parts: the initializer of the state, run once on load, and the effect,
  run after the first render and after every render in which the value has changed.
  Each is a \<open>try\<close> body, whose result is an exception or a value, under its \<open>catch\<close>.
\<close>

definition useLocalStorage_init_try ::
  "'v JSON \<Rightarrow> local_storage \<Rightarrow> string \<Rightarrow> 'v \<Rightarrow> exn + 'v" where
  "useLocalStorage_init_try J ls k initialValue =
     (case getItem ls k of
        Inl e \<Rightarrow> Inl e
      | Inr None \<Rightarrow> Inr initialValue
      | Inr (Some raw) \<Rightarrow>
          if raw = [] then Inr initialValue
          else (case parse J raw of None \<Rightarrow> Inl SyntaxError | Some v \<Rightarrow> Inr v))"

definition useLocalStorage_init :: "'v JSON \<Rightarrow> local_storage \<Rightarrow> string \<Rightarrow> 'v \<Rightarrow> 'v" where
  "useLocalStorage_init J ls k initialValue =
     (case useLocalStorage_init_try J ls k initialValue of
        Inr v \<Rightarrow> v
      | Inl _ \<Rightarrow> initialValue)"

definition useLocalStorage_effect_try ::
  "'v JSON \<Rightarrow> local_storage \<Rightarrow> string \<Rightarrow> 'v \<Rightarrow> exn + local_storage" where
  "useLocalStorage_effect_try J ls k v = setItem ls k (stringify J v)"

definition useLocalStorage_effect ::
  "'v JSON \<Rightarrow> local_storage \<Rightarrow> string \<Rightarrow> 'v \<Rightarrow> local_storage" where
  "useLocalStorage_effect J ls k v =
     (case useLocalStorage_effect_try J ls k v of
        Inr ls' \<Rightarrow> ls'
      | Inl _ \<Rightarrow> ls)"

section \<open>The BookFinder component\<close>

text \<open>
  The state variables of the component, in the order of their \<open>useState\<close> calls, and the
  saved list of \<open>useLocalStorage("bookfinder.saved", [])\<close>. The names \<open>sort\<close> and \<open>total\<close>
  are taken in HOL and carry a suffix.
\<close>

record state =
  query :: string
  field :: string
  ebookOnly :: bool
  lang :: string
  sort_st :: string
  books :: "book list"
  total_st :: int
  page :: int
  loading :: bool
  error :: string
  selected :: "book option"
  saved :: "book list"

definition pageSize :: int where
  "pageSize = 20"

definition saved_key :: string where
  "saved_key = ''bookfinder.saved''"

subsection \<open>Loading the component and saving a book\<close>

text \<open>
  \<open>BookFinder_load\<close> is the first render with the effect of \<open>useLocalStorage\<close> after it;
  \<open>clickSave\<close> is a call of \<open>toggleSave\<close> from a button, with the effect that the changed
  list triggers (the updater always returns a fresh array).
\<close>

definition BookFinder_load :: "book list JSON \<Rightarrow> local_storage \<Rightarrow> state \<times> local_storage" where
  "BookFinder_load J ls =
     (let st = \<lparr>query = '''', field = ''all'', ebookOnly = False, lang = '''',
                sort_st = ''relevance'', books = [], total_st = 0, page = 1,
                loading = False, error = '''', selected = None,
                saved = useLocalStorage_init J ls saved_key []\<rparr>
      in (st, useLocalStorage_effect J ls saved_key (saved st)))"

definition clickSave ::
  "book list JSON \<Rightarrow> book \<Rightarrow> state \<times> local_storage \<Rightarrow> state \<times> local_storage" where
  "clickSave J book = (\<lambda>(st, ls).
     (let st' = st\<lparr>saved := toggleSave book (saved st)\<rparr>
      in (st', useLocalStorage_effect J ls saved_key (saved st'))))"

subsection \<open>buildUrl\<close>

text \<open>
  \<^verbatim>\<open>
  const buildUrl = () => {
    const params = new URLSearchParams();
    params.set("page", String(page));
    if (!query.trim()) { params.set("q", ""); }
    else if (field === "title") { params.set("title", query.trim()); }
    else if (field === "author") { params.set("author", query.trim()); }
    else if (field === "subject") { params.set("subject", query.trim()); }
    else if (field === "isbn") { params.set("isbn", query.trim()); }
    else { params.set("q", query.trim()); }
    if (ebookOnly) params.set("has_fulltext", "true");
    if (lang) params.set("language", lang);
    params.set("fields", ["key", "title", "author_name", "cover_i", "first_publish_year",
      "ebook_access", "has_fulltext", "language", "edition_count", "subject"].join(","));
    return `https://openlibrary.org/search.json?${params.toString()}`;
  };
  \<close>
  \<open>buildUrl_params\<close> is the object \<open>params\<close> when \<open>buildUrl\<close> returns. An empty string is
  the only falsy string.
\<close>

definition buildUrl_params :: "state \<Rightarrow> params" where
  "buildUrl_params st =
     (let params = [];
          params = set_param ''page'' (String (page st)) params;
          params =
            (if trim (query st) = [] then set_param ''q'' '''' params
             else if field st = ''title'' then set_param ''title'' (trim (query st)) params
             else if field st = ''author'' then set_param ''author'' (trim (query st)) params
             else if field st = ''subject'' then set_param ''subject'' (trim (query st)) params
             else if field st = ''isbn'' then set_param ''isbn'' (trim (query st)) params
             else set_param ''q'' (trim (query st)) params);
          params = (if ebookOnly st then set_param ''has_fulltext'' ''true'' params else params);
          params = (if lang st \<noteq> [] then set_param ''language'' (lang st) params else params);
          params = set_param ''fields''
            (join '',''
               [''key'', ''title'', ''author_name'', ''cover_i'', ''first_publish_year'',
                ''ebook_access'', ''has_fulltext'', ''language'', ''edition_count'',
                ''subject'']) params
      in params)"

definition buildUrl :: "state \<Rightarrow> string" where
  "buildUrl st = ''https://openlibrary.org/search.json?'' @ toString (buildUrl_params st)"

subsection \<open>fetchBooks\<close>

text \<open>
  \<^verbatim>\<open>
  async function fetchBooks() {
    setLoading(true);
    setError("");
    try {
      const url = buildUrl();
      const res = await fetch(url);
      if (!res.ok) throw new Error(`HTTP ${res.status}`);
      const data = await res.json();
      let docs = Array.isArray(data.docs) ? data.docs : [];
      if (sort === "year_asc") {
        docs = [...docs].sort((a, b) => (a.first_publish_year || 0) - (b.first_publish_year || 0));
      } else if (sort === "year_desc") {
        docs = [...docs].sort((a, b) => (b.first_publish_year || 0) - (a.first_publish_year || 0));
      }
      setBooks(docs);
      setTotal(Number(data.numFound || data.num_found || 0));
      if (!docs.length) setError("No books found.");
    } catch (e) {
      setError("Network error. Please try again.");
      setBooks([]);
      setTotal(0);
    } finally {
      setLoading(false);
    }
  }
  \<close>
  \<open>x || 0\<close> on a year or a counter: a missing value and 0 are falsy.
\<close>

definition year_or_0 :: "book \<Rightarrow> int" where
  "year_or_0 a = (case first_publish_year a of None \<Rightarrow> 0 | Some y \<Rightarrow> if y = 0 then 0 else y)"

definition found_count :: "search_data \<Rightarrow> int" where
  "found_count d =
     (case numFound d of
        Some n \<Rightarrow> if n \<noteq> 0 then n else (case num_found d of Some m \<Rightarrow> m | None \<Rightarrow> 0)
      | None \<Rightarrow> (case num_found d of Some m \<Rightarrow> m | None \<Rightarrow> 0))"

definition fetchBooks_try :: "state \<Rightarrow> network \<Rightarrow> (exn + state) \<times> network" where
  "fetchBooks_try st net =
     (let url = buildUrl st;
          (res, net') = fetch url net
      in case res of
           Rejected \<Rightarrow> (Inl FetchRejected, net')
         | Resolved r \<Rightarrow>
             if \<not> ok r then (Inl (HttpError (status r)), net')
             else (case json r of
                     None \<Rightarrow> (Inl SyntaxError, net')
                   | Some data \<Rightarrow>
                       let ds = (case docs data of Some a \<Rightarrow> a | None \<Rightarrow> []);
                           ds = (if sort_st st = ''year_asc''
                                 then array_sort (\<lambda>a b. year_or_0 a - year_or_0 b) ds
                                 else if sort_st st = ''year_desc''
                                 then array_sort (\<lambda>a b. year_or_0 b - year_or_0 a) ds
                                 else ds);
                           st = st\<lparr>books := ds\<rparr>;
                           st = st\<lparr>total_st := found_count data\<rparr>;
                           st = (if ds = [] then st\<lparr>error := ''No books found.''\<rparr> else st)
                       in (Inr st, net')))"

definition fetchBooks :: "state \<Rightarrow> network \<Rightarrow> state \<times> network" where
  "fetchBooks st net =
     (let st = st\<lparr>loading := True\<rparr>;
          st = st\<lparr>error := ''''\<rparr>;
          (r, net') = fetchBooks_try st net;
          st = (case r of
                  Inr st' \<Rightarrow> st'
                | Inl e \<Rightarrow>
                    (let st = st\<lparr>error := ''Network error. Please try again.''\<rparr>;
                         st = st\<lparr>books := []\<rparr>
                     in st\<lparr>total_st := 0\<rparr>))
      in (st\<lparr>loading := False\<rparr>, net'))"

subsection \<open>The debounced effect\<close>

text \<open>
  \<^verbatim>\<open>
  const handle = setTimeout(() => {
    if (!query.trim()) {
      setBooks([]); setTotal(0); setError(""); setLoading(false);
      return;
    }
    fetchBooks();
  }, 300);
  \<close>
  \<open>debounced\<close> is the callback that the timer runs 300 ms after the last change of an
  input.
\<close>

definition debounced :: "state \<Rightarrow> network \<Rightarrow> state \<times> network" where
  "debounced st net =
     (if trim (query st) = [] then
        (let st = st\<lparr>books := []\<rparr>;
             st = st\<lparr>total_st := 0\<rparr>;
             st = st\<lparr>error := ''''\<rparr>
         in (st\<lparr>loading := False\<rparr>, net))
      else fetchBooks st net)"

subsection \<open>Pagination\<close>

text \<open>
  \<^verbatim>\<open>
  const totalPages = useMemo(() => Math.max(1, Math.ceil(total / pageSize)), [total]);
  <button onClick={() => setPage((p) => Math.max(1, p - 1))}>Prev</button>
  <button onClick={() => setPage((p) => Math.min(totalPages, p + 1))}>Next</button>
  \<close>
  The total and the page are integers; the quotient is the exact one.
\<close>

definition totalPages :: "state \<Rightarrow> int" where
  "totalPages st = max 1 \<lceil>real_of_int (total_st st) / real_of_int pageSize\<rceil>"

definition clickPrev :: "state \<Rightarrow> state" where
  "clickPrev st = st\<lparr>page := max 1 (page st - 1)\<rparr>"

definition clickNext :: "state \<Rightarrow> state" where
  "clickNext st = st\<lparr>page := min (totalPages st) (page st + 1)\<rparr>"

section \<open>The minimal variant\<close>

text \<open>
  \<^verbatim>\<open>
  const searchBooks = async () => {
    if (!query.trim()) return;
    setLoading(true);
    setError("");
    try {
      const res = await fetch(`https://openlibrary.org/search.json?q=${encodeURIComponent(query)}`);
      const data = await res.json();
      if (data.docs.length === 0) { setError("No books found."); }
      setBooks(data.docs);
    } catch (err) {
      setError("Network error. Please try again.");
    } finally {
      setLoading(false);
    }
  };
  \<close>
  The minimal component has four state variables. Reading \<open>length\<close> of a missing \<open>docs\<close>
  throws a TypeError.
\<close>

record mini_state =
  m_query :: string
  m_books :: "book list"
  m_loading :: bool
  m_error :: string

definition searchBooks_try :: "mini_state \<Rightarrow> network \<Rightarrow> (exn + mini_state) \<times> network" where
  "searchBooks_try st net =
     (let (res, net') =
            fetch (''https://openlibrary.org/search.json?q='' @ encodeURIComponent (m_query st))
              net
      in case res of
           Rejected \<Rightarrow> (Inl FetchRejected, net')
         | Resolved r \<Rightarrow>
             (case json r of
                None \<Rightarrow> (Inl SyntaxError, net')
              | Some data \<Rightarrow>
                  (case docs data of
                     None \<Rightarrow> (Inl TypeError, net')
                   | Some ds \<Rightarrow>
                       let st = (if ds = [] then st\<lparr>m_error := ''No books found.''\<rparr> else st)
                       in (Inr (st\<lparr>m_books := ds\<rparr>), net'))))"

definition searchBooks :: "mini_state \<Rightarrow> network \<Rightarrow> mini_state \<times> network" where
  "searchBooks st net =
     (if trim (m_query st) = [] then (st, net)
      else
        (let st = st\<lparr>m_loading := True\<rparr>;
             st = st\<lparr>m_error := ''''\<rparr>;
             (r, net') = searchBooks_try st net;
             st = (case r of
                     Inr st' \<Rightarrow> st'
                   | Inl e \<Rightarrow> st\<lparr>m_error := ''Network error. Please try again.''\<rparr>)
         in (st\<lparr>m_loading := False\<rparr>, net')))"

section \<open>Sample data\<close>

text \<open>
  Records that carry only a key, a title and a year, three of them; a stand-in for the
  JSON functions that knows two documents; storages that accept every write or none;
  responses of the endpoint; and the state after typing a query (the change of the query
  resets the page to 1).
\<close>

definition doc :: "string \<Rightarrow> string \<Rightarrow> int option \<Rightarrow> book" where
  "doc k t y = \<lparr>key = k, title = t, author_name = None, cover_i = None,
     first_publish_year = y, ebook_access = None, has_fulltext = None, language = None,
     edition_count = None, subject = None\<rparr>"

definition hobbit :: book where
  "hobbit = doc ''/works/OL27482W'' ''The Hobbit'' (Some 1937)"

definition dune :: book where
  "dune = doc ''/works/OL893415W'' ''Dune'' (Some 1965)"

definition undated :: book where
  "undated = doc ''/works/OL1W'' ''Fragments'' None"

definition table_JSON :: "book list JSON" where
  "table_JSON =
     \<lparr>parse = map_of [(''[]'', []), (''[hobbit]'', [hobbit])],
      stringify = (\<lambda>bs. if bs = [] then ''[]'' else if bs = [hobbit] then ''[hobbit]''
                          else ''[...]'')\<rparr>"

definition storage_of :: "(string \<times> string) list \<Rightarrow> bool \<Rightarrow> local_storage" where
  "storage_of kvs writable =
     \<lparr>items = map_of kvs, denied = False, accepts = (\<lambda>k v. writable)\<rparr>"

definition found :: "int \<Rightarrow> book list \<Rightarrow> fetch_outcome" where
  "found n ds =
     Resolved \<lparr>ok = True, status = 200,
               json = Some \<lparr>docs = Some ds, numFound = Some n, num_found = None\<rparr>\<rparr>"

definition server_error :: fetch_outcome where
  "server_error = Resolved \<lparr>ok = False, status = 500, json = None\<rparr>"

definition typing :: "string \<Rightarrow> state \<Rightarrow> state" where
  "typing q st = st\<lparr>query := q, page := 1\<rparr>"

definition loaded :: state where
  "loaded = fst (BookFinder_load table_JSON (storage_of [] True))"

text \<open>
  A session: the query \<open>tolkien\<close> finds 100 records, four clicks on Next lead to page 5
  of 5, each followed by its fetch; then the Search button fetches page 5 again and the
  endpoint reports 40 records.
\<close>

definition page_five :: "state \<times> network" where
  "page_five =
     (let st = typing ''tolkien'' loaded;
          net = \<lparr>pending = [found 100 [hobbit], found 100 [hobbit], found 100 [hobbit],
                             found 100 [hobbit], found 100 [hobbit], found 40 [hobbit]],
                 sent = []\<rparr>;
          (st, net) = debounced st net;
          (st, net) = debounced (clickNext st) net;
          (st, net) = debounced (clickNext st) net;
          (st, net) = debounced (clickNext st) net
      in debounced (clickNext st) net)"

definition shrunk_total :: state where
  "shrunk_total = fst (fetchBooks (fst page_five) (snd page_five))"

text \<open>Searching the author field for Tolkien; page 3 of English ebooks on a subject.\<close>

definition tolkien_by_author :: state where
  "tolkien_by_author = (typing ''  Tolkien '' loaded)\<lparr>field := ''author''\<rparr>"

definition english_ebooks :: state where
  "english_ebooks =
     (typing ''chess'' loaded)\<lparr>field := ''subject'', ebookOnly := True, lang := ''eng'',
                               page := 3\<rparr>"

text \<open>
  A storage that holds the serialized empty list and accepts no write, and the component
  loaded from it with one book saved afterwards.
\<close>

definition full_storage :: local_storage where
  "full_storage = storage_of [(saved_key, ''[]'')] False"

definition saved_on_full :: "state \<times> local_storage" where
  "saved_on_full = clickSave table_JSON hobbit (BookFinder_load table_JSON full_storage)"

section \<open>Properties of the saved list\<close>

lemma find_key_None: "find (\<lambda>b. key b = k) xs = None \<longleftrightarrow> k \<notin> key ` set xs"
  by (auto simp: find_None_iff)

lemma toggleSave_present:
  "k \<in> key ` set prev \<Longrightarrow> key book = k \<Longrightarrow>
     toggleSave book prev = filter (\<lambda>b. key b \<noteq> k) prev"
  by (cases "find (\<lambda>b. key b = k) prev") (auto simp: toggleSave_def find_key_None)

lemma toggleSave_absent:
  "key book \<notin> key ` set prev \<Longrightarrow> toggleSave book prev = prev @ [book]"
  using find_key_None [of "key book" prev] by (simp add: toggleSave_def)

lemma filter_other_keys:
  "k \<notin> key ` set xs \<Longrightarrow> filter (\<lambda>b. key b \<noteq> k) xs = xs"
  by (induction xs) auto

lemma isSaved_toggleSave: "isSaved (toggleSave book prev) book \<longleftrightarrow> \<not> isSaved prev book"
proof (cases "key book \<in> key ` set prev")
  case True
  then have "isSaved prev book" by (auto simp: isSaved_def list_ex_iff)
  with True show ?thesis
    using toggleSave_present [of "key book" prev book]
    by (simp add: isSaved_def list_ex_iff)
next
  case False
  then have "\<not> isSaved prev book"
    unfolding isSaved_def list_ex_iff by (metis imageI)
  with False show ?thesis
    using toggleSave_absent [of book prev]
    by (simp add: isSaved_def list_ex_iff)
qed

text \<open>
  Claim C1. For every saved list and every book record, \<open>toggleSave\<close> returns the list
  without any entry of the book's key when the list has such an entry, and the list with
  the book appended at the end otherwise. In both cases the entries of other keys are the
  same as before, in the same order.
\<close>

theorem toggleSave_spec:
  "((\<exists>b \<in> set prev. key b = key book) \<longrightarrow>
      toggleSave book prev = filter (\<lambda>b. key b \<noteq> key book) prev) \<and>
   (\<not> (\<exists>b \<in> set prev. key b = key book) \<longrightarrow>
      toggleSave book prev = prev @ [book]) \<and>
   filter (\<lambda>b. key b \<noteq> key book) (toggleSave book prev) =
     filter (\<lambda>b. key b \<noteq> key book) prev"
proof (cases "key book \<in> key ` set prev")
  case True
  then have "\<exists>b \<in> set prev. key b = key book" by (auto simp: image_iff)
  with True show ?thesis
    using toggleSave_present [of "key book" prev book] by simp
next
  case False
  then have "\<not> (\<exists>b \<in> set prev. key b = key book)" by (metis imageI)
  with False show ?thesis
    using toggleSave_absent [of book prev] by simp
qed

theorem toggleSave_spec_witness:
  "toggleSave hobbit [hobbit, dune] = [dune] \<and>
   toggleSave undated [hobbit, dune] = [hobbit, dune, undated]"
  using toggleSave_spec [of "[hobbit, dune]" hobbit]
    toggleSave_spec [of "[hobbit, dune]" undated]
  by (simp add: hobbit_def dune_def undated_def doc_def)

lemma filter_key_remove1:
  "distinct (map key xs) \<Longrightarrow> b \<in> set xs \<Longrightarrow>
     filter (\<lambda>x. key x \<noteq> key b) xs = remove1 b xs"
proof (induction xs)
  case Nil
  then show ?case by simp
next
  case (Cons x xs)
  show ?case
  proof (cases "x = b")
    case True
    with Cons.prems have "key b \<notin> key ` set xs" by auto
    with True show ?thesis by (simp add: filter_other_keys)
  next
    case False
    with Cons.prems have "b \<in> set xs" "key x \<noteq> key b" by auto
    with Cons False show ?thesis by simp
  qed
qed

lemma moved_to_end_same:
  "distinct xs \<Longrightarrow> b \<in> set xs \<Longrightarrow> (remove1 b xs @ [b] = xs \<longleftrightarrow> last xs = b)"
proof
  assume "remove1 b xs @ [b] = xs"
  then have "last xs = last (remove1 b xs @ [b])" by simp
  then show "last xs = b" by simp
next
  assume d: "distinct xs" and m: "b \<in> set xs" and l: "last xs = b"
  from m have "xs \<noteq> []" by auto
  with l have xs: "xs = butlast xs @ [b]" by (metis append_butlast_last_id)
  with d have "distinct (butlast xs @ [b])" by simp
  then have "b \<notin> set (butlast xs)" by simp
  then have "remove1 b (butlast xs @ [b]) = butlast xs"
    by (simp add: remove1_append remove1_idem)
  with xs show "remove1 b xs @ [b] = xs" by simp
qed

text \<open>
  Claim C7. In a saved list whose entries have pairwise different keys: toggling twice
  a book whose key does not occur gives the list back; toggling twice a book that is an
  entry of the list gives the list with that entry moved to the end, which is the
  original list exactly when the entry was the last one.
\<close>

theorem toggleSave_twice:
  assumes "distinct (map key prev)"
  shows "(key b \<notin> key ` set prev \<longrightarrow> toggleSave b (toggleSave b prev) = prev) \<and>
         (b \<in> set prev \<longrightarrow>
            toggleSave b (toggleSave b prev) = remove1 b prev @ [b] \<and>
            (toggleSave b (toggleSave b prev) = prev \<longleftrightarrow> last prev = b))"
proof (intro conjI impI)
  assume a: "key b \<notin> key ` set prev"
  then have "toggleSave b prev = prev @ [b]" by (rule toggleSave_absent)
  moreover have "toggleSave b (prev @ [b]) = filter (\<lambda>x. key x \<noteq> key b) (prev @ [b])"
    by (rule toggleSave_present) simp_all
  ultimately show "toggleSave b (toggleSave b prev) = prev"
    using a by (simp add: filter_other_keys)
next
  assume m: "b \<in> set prev"
  from assms have d: "distinct prev" by (simp add: distinct_map)
  from m have "toggleSave b prev = filter (\<lambda>x. key x \<noteq> key b) prev"
    by (intro toggleSave_present) auto
  then have 1: "toggleSave b prev = remove1 b prev"
    using assms m by (simp add: filter_key_remove1)
  have "key b \<notin> key ` set (filter (\<lambda>x. key x \<noteq> key b) prev)" by auto
  then have "key b \<notin> key ` set (remove1 b prev)"
    using assms m by (simp add: filter_key_remove1)
  then have 2: "toggleSave b (remove1 b prev) = remove1 b prev @ [b]"
    by (rule toggleSave_absent)
  from 1 2 show r: "toggleSave b (toggleSave b prev) = remove1 b prev @ [b]" by simp
  show "toggleSave b (toggleSave b prev) = prev \<longleftrightarrow> last prev = b"
    unfolding r using d m by (rule moved_to_end_same)
qed

theorem toggleSave_twice_witness:
  "distinct (map key [hobbit, dune]) \<and>
   toggleSave undated (toggleSave undated [hobbit, dune]) = [hobbit, dune] \<and>
   toggleSave hobbit (toggleSave hobbit [hobbit, dune]) = [dune, hobbit] \<and>
   toggleSave dune (toggleSave dune [hobbit, dune]) = [hobbit, dune]"
proof -
  have d: "distinct (map key [hobbit, dune])"
    by (simp add: hobbit_def dune_def doc_def)
  show ?thesis
    using d toggleSave_twice [OF d, of undated] toggleSave_twice [OF d, of hobbit]
      toggleSave_twice [OF d, of dune]
    by (simp add: hobbit_def dune_def undated_def doc_def)
qed

section \<open>Properties of fetching\<close>

lemma mset_insert_cmp: "mset (insert_cmp cmp x xs) = add_mset x (mset xs)"
  by (induction xs) auto

lemma mset_array_sort: "mset (array_sort cmp xs) = mset xs"
  by (induction xs) (auto simp: array_sort_def mset_insert_cmp)

lemma set_insert_cmp: "set (insert_cmp cmp x xs) = insert x (set xs)"
  by (induction xs) auto

lemma sorted_insert_cmp:
  assumes total: "\<And>a b. cmp a b \<le> 0 \<or> cmp b a \<le> 0"
    and trans: "\<And>a b c. cmp a b \<le> 0 \<Longrightarrow> cmp b c \<le> 0 \<Longrightarrow> cmp a c \<le> 0"
  shows "sorted_wrt (\<lambda>a b. cmp a b \<le> 0) xs \<Longrightarrow>
         sorted_wrt (\<lambda>a b. cmp a b \<le> 0) (insert_cmp cmp x xs)"
proof (induction xs)
  case Nil
  then show ?case by simp
next
  case (Cons y ys)
  show ?case
  proof (cases "cmp x y \<le> 0")
    case True
    with Cons.prems trans show ?thesis by auto
  next
    case False
    with total have "cmp y x \<le> 0" by blast
    with Cons False show ?thesis by (auto simp: set_insert_cmp)
  qed
qed

lemma sorted_array_sort:
  assumes "\<And>a b. cmp a b \<le> 0 \<or> cmp b a \<le> 0"
    and "\<And>a b c. cmp a b \<le> 0 \<Longrightarrow> cmp b c \<le> 0 \<Longrightarrow> cmp a c \<le> 0"
  shows "sorted_wrt (\<lambda>a b. cmp a b \<le> 0) (array_sort cmp xs)"
proof (induction xs)
  case Nil
  then show ?case by (simp add: array_sort_def)
next
  case (Cons x xs)
  then have "sorted_wrt (\<lambda>a b. cmp a b \<le> 0) (insert_cmp cmp x (array_sort cmp xs))"
    using assms by (intro sorted_insert_cmp)
  then show ?case by (simp add: array_sort_def)
qed

lemma year_or_0_eq:
  "year_or_0 a = (case first_publish_year a of None \<Rightarrow> 0 | Some y \<Rightarrow> y)"
  by (simp add: year_or_0_def split: option.splits)

lemma sorted_year_asc:
  "sorted_wrt (\<lambda>a b. year_or_0 a \<le> year_or_0 b)
     (array_sort (\<lambda>a b. year_or_0 a - year_or_0 b) xs)"
  using sorted_array_sort [of "\<lambda>a b. year_or_0 a - year_or_0 b" xs] by fastforce

lemma sorted_year_desc:
  "sorted_wrt (\<lambda>a b. year_or_0 b \<le> year_or_0 a)
     (array_sort (\<lambda>a b. year_or_0 b - year_or_0 a) xs)"
  using sorted_array_sort [of "\<lambda>a b. year_or_0 b - year_or_0 a" xs] by fastforce

lemma fetch_head:
  "pending net = r # rest \<Longrightarrow>
     fetch url net = (r, net\<lparr>pending := rest, sent := sent net @ [url]\<rparr>)"
  by (simp add: fetch_def)

lemma fetch_sent: "sent (snd (fetch url net)) = sent net @ [url]"
  by (simp add: fetch_def split: list.splits)

lemma fetch_pending: "pending (snd (fetch url net)) = tl (pending net)"
  by (simp add: fetch_def split: list.splits)

lemma buildUrl_loading_error: "buildUrl (st\<lparr>loading := l, error := e\<rparr>) = buildUrl st"
  by (simp add: buildUrl_def buildUrl_params_def Let_def)

lemma fetchBooks_try_net: "snd (fetchBooks_try st net) = snd (fetch (buildUrl st) net)"
  by (cases "fetch (buildUrl st) net")
     (simp add: fetchBooks_try_def Let_def split: fetch_outcome.splits option.splits)

lemma fetchBooks_net: "snd (fetchBooks st net) = snd (fetch (buildUrl st) net)"
  using fetchBooks_try_net [of "st\<lparr>loading := True, error := []\<rparr>" net]
  by (simp add: fetchBooks_def Let_def buildUrl_loading_error case_prod_beta)

lemma fetchBooks_ok_books:
  assumes "pending net = Resolved r # rest" "ok r" "json r = Some data" "docs data = Some ds"
  shows "books (fst (fetchBooks st net)) =
           (if sort_st st = ''year_asc''
            then array_sort (\<lambda>a b. year_or_0 a - year_or_0 b) ds
            else if sort_st st = ''year_desc''
            then array_sort (\<lambda>a b. year_or_0 b - year_or_0 a) ds
            else ds)"
  using assms by (simp add: fetchBooks_def fetchBooks_try_def fetch_head Let_def)

text \<open>
  Claim C5. When the request resolves to an ok response whose body has the array \<open>ds\<close> of
  records, the results that \<open>fetchBooks\<close> writes are: for \<open>year_asc\<close> a permutation of
  \<open>ds\<close> in non-decreasing order of the year, a missing year counting as 0; for
  \<open>year_desc\<close> a permutation in non-increasing order; for \<open>relevance\<close> the list \<open>ds\<close>
  itself.
\<close>

theorem fetchBooks_sorted:
  assumes "pending net = Resolved r # rest" and "ok r" and "json r = Some data"
    and "docs data = Some ds"
  shows "(sort_st st = ''year_asc'' \<longrightarrow>
            mset (books (fst (fetchBooks st net))) = mset ds \<and>
            sorted_wrt (\<lambda>a b. (case first_publish_year a of None \<Rightarrow> 0 | Some y \<Rightarrow> y)
                             \<le> (case first_publish_year b of None \<Rightarrow> 0 | Some y \<Rightarrow> y))
              (books (fst (fetchBooks st net)))) \<and>
         (sort_st st = ''year_desc'' \<longrightarrow>
            mset (books (fst (fetchBooks st net))) = mset ds \<and>
            sorted_wrt (\<lambda>a b. (case first_publish_year a of None \<Rightarrow> 0 | Some y \<Rightarrow> y)
                             \<ge> (case first_publish_year b of None \<Rightarrow> 0 | Some y \<Rightarrow> y))
              (books (fst (fetchBooks st net)))) \<and>
         (sort_st st = ''relevance'' \<longrightarrow> books (fst (fetchBooks st net)) = ds)"
  using sorted_year_asc [of ds] sorted_year_desc [of ds]
  by (simp add: fetchBooks_ok_books [OF assms] mset_array_sort year_or_0_eq)

theorem fetchBooks_sorted_witness:
  "mset (books (fst (fetchBooks (loaded\<lparr>sort_st := ''year_asc''\<rparr>)
           \<lparr>pending = [found 3 [dune, undated, hobbit]], sent = []\<rparr>))) =
     mset [dune, undated, hobbit] \<and>
   books (fst (fetchBooks (loaded\<lparr>sort_st := ''year_asc''\<rparr>)
           \<lparr>pending = [found 3 [dune, undated, hobbit]], sent = []\<rparr>)) =
     [undated, hobbit, dune] \<and>
   books (fst (fetchBooks (loaded\<lparr>sort_st := ''year_desc''\<rparr>)
           \<lparr>pending = [found 3 [dune, undated, hobbit]], sent = []\<rparr>)) =
     [dune, hobbit, undated] \<and>
   books (fst (fetchBooks loaded
           \<lparr>pending = [found 3 [dune, undated, hobbit]], sent = []\<rparr>)) =
     [dune, undated, hobbit]"
proof -
  have asc: "books (fst (fetchBooks (loaded\<lparr>sort_st := ''year_asc''\<rparr>)
           \<lparr>pending = [found 3 [dune, undated, hobbit]], sent = []\<rparr>)) =
     [undated, hobbit, dune]"
    by (simp add: fetchBooks_ok_books [of _ _ "[]" _ "[dune, undated, hobbit]"] found_def
        array_sort_def year_or_0_def hobbit_def dune_def undated_def doc_def)
  have desc: "books (fst (fetchBooks (loaded\<lparr>sort_st := ''year_desc''\<rparr>)
           \<lparr>pending = [found 3 [dune, undated, hobbit]], sent = []\<rparr>)) =
     [dune, hobbit, undated]"
    by (simp add: fetchBooks_ok_books [of _ _ "[]" _ "[dune, undated, hobbit]"] found_def
        array_sort_def year_or_0_def hobbit_def dune_def undated_def doc_def)
  have rel: "sort_st loaded = ''relevance''"
    by (simp add: loaded_def BookFinder_load_def)
  show ?thesis
    using fetchBooks_sorted [of "\<lparr>pending = [found 3 [dune, undated, hobbit]], sent = []\<rparr>"
        "\<lparr>ok = True, status = 200,
          json = Some \<lparr>docs = Some [dune, undated, hobbit], numFound = Some 3,
                       num_found = None\<rparr>\<rparr>"
        "[]" "\<lparr>docs = Some [dune, undated, hobbit], numFound = Some 3, num_found = None\<rparr>"
        "[dune, undated, hobbit]" "loaded\<lparr>sort_st := ''year_asc''\<rparr>"]
      fetchBooks_sorted [of "\<lparr>pending = [found 3 [dune, undated, hobbit]], sent = []\<rparr>"
        "\<lparr>ok = True, status = 200,
          json = Some \<lparr>docs = Some [dune, undated, hobbit], numFound = Some 3,
                       num_found = None\<rparr>\<rparr>"
        "[]" "\<lparr>docs = Some [dune, undated, hobbit], numFound = Some 3, num_found = None\<rparr>"
        "[dune, undated, hobbit]" loaded]
      fetchBooks_sorted [of "\<lparr>pending = [found 3 [dune, undated, hobbit]], sent = []\<rparr>"
        "\<lparr>ok = True, status = 200,
          json = Some \<lparr>docs = Some [dune, undated, hobbit], numFound = Some 3,
                       num_found = None\<rparr>\<rparr>"
        "[]" "\<lparr>docs = Some [dune, undated, hobbit], numFound = Some 3, num_found = None\<rparr>"
        "[dune, undated, hobbit]" "loaded\<lparr>sort_st := ''year_desc''\<rparr>"]
      asc desc rel
    by (simp add: found_def)
qed

lemma fetchBooks_failed:
  assumes "fst (fetch (buildUrl st) net) = Rejected \<or>
           (\<exists>r. fst (fetch (buildUrl st) net) = Resolved r \<and> \<not> ok r)"
  shows "fst (fetchBooks st net) =
           st\<lparr>loading := False, error := ''Network error. Please try again.'',
               books := [], total_st := 0\<rparr>"
proof -
  obtain res net' where f: "fetch (buildUrl st) net = (res, net')"
    by (cases "fetch (buildUrl st) net")
  with assms have "res = Rejected \<or> (\<exists>r. res = Resolved r \<and> \<not> ok r)" by simp
  then show ?thesis
    using f by (auto simp: fetchBooks_def fetchBooks_try_def Let_def buildUrl_loading_error)
qed

lemma searchBooks_net:
  "trim (m_query st) \<noteq> [] \<Longrightarrow>
   snd (searchBooks st net) =
     snd (fetch (''https://openlibrary.org/search.json?q='' @ encodeURIComponent (m_query st))
            net)"
  by (simp add: searchBooks_def searchBooks_try_def Let_def
      split: prod.splits fetch_outcome.splits option.splits)

lemma searchBooks_failed:
  assumes "trim (m_query st) \<noteq> []"
    and "fst (fetch (''https://openlibrary.org/search.json?q='' @
                      encodeURIComponent (m_query st)) net) = Rejected"
  shows "fst (searchBooks st net) =
           st\<lparr>m_loading := False, m_error := ''Network error. Please try again.''\<rparr>"
proof -
  obtain res net' where
    f: "fetch (''https://openlibrary.org/search.json?q='' @ encodeURIComponent (m_query st))
          net = (res, net')"
    by (cases "fetch (''https://openlibrary.org/search.json?q='' @
                       encodeURIComponent (m_query st)) net")
  with assms have "res = Rejected" by simp
  then show ?thesis
    using f assms(1) by (simp add: searchBooks_def searchBooks_try_def Let_def)
qed

text \<open>
  Claim C6. When the one request of \<open>fetchBooks\<close> (extended variant) is rejected or
  resolves to a response that is not ok, exactly one request has been sent and one
  outcome consumed, the error message is "Network error. Please try again.", the results
  are empty, the total is 0 and the loading flag is false. When the one request of
  \<open>searchBooks\<close> (minimal variant) is rejected, exactly one request has been sent, the
  error message is the same and the loading flag is false.
\<close>

theorem fetch_failure_reported:
  "(fst (fetch (buildUrl st) net) = Rejected \<or>
    (\<exists>r. fst (fetch (buildUrl st) net) = Resolved r \<and> \<not> ok r) \<longrightarrow>
      sent (snd (fetchBooks st net)) = sent net @ [buildUrl st] \<and>
      pending (snd (fetchBooks st net)) = tl (pending net) \<and>
      error (fst (fetchBooks st net)) = ''Network error. Please try again.'' \<and>
      books (fst (fetchBooks st net)) = [] \<and>
      total_st (fst (fetchBooks st net)) = 0 \<and>
      loading (fst (fetchBooks st net)) = False) \<and>
   (trim (m_query mst) \<noteq> [] \<and>
    fst (fetch (''https://openlibrary.org/search.json?q='' @ encodeURIComponent (m_query mst))
           mnet) = Rejected \<longrightarrow>
      sent (snd (searchBooks mst mnet)) =
        sent mnet @
        [''https://openlibrary.org/search.json?q='' @ encodeURIComponent (m_query mst)] \<and>
      pending (snd (searchBooks mst mnet)) = tl (pending mnet) \<and>
      m_error (fst (searchBooks mst mnet)) = ''Network error. Please try again.'' \<and>
      m_loading (fst (searchBooks mst mnet)) = False)"
proof (intro conjI impI)
  assume a: "fst (fetch (buildUrl st) net) = Rejected \<or>
    (\<exists>r. fst (fetch (buildUrl st) net) = Resolved r \<and> \<not> ok r)"
  show "sent (snd (fetchBooks st net)) = sent net @ [buildUrl st]"
    by (simp add: fetchBooks_net fetch_sent)
  show "pending (snd (fetchBooks st net)) = tl (pending net)"
    by (simp add: fetchBooks_net fetch_pending)
  show "error (fst (fetchBooks st net)) = ''Network error. Please try again.''"
    by (simp add: fetchBooks_failed [OF a])
  show "books (fst (fetchBooks st net)) = []"
    by (simp add: fetchBooks_failed [OF a])
  show "total_st (fst (fetchBooks st net)) = 0"
    by (simp add: fetchBooks_failed [OF a])
  show "loading (fst (fetchBooks st net)) = False"
    by (simp add: fetchBooks_failed [OF a])
next
  assume b: "trim (m_query mst) \<noteq> [] \<and>
    fst (fetch (''https://openlibrary.org/search.json?q='' @ encodeURIComponent (m_query mst))
           mnet) = Rejected"
  then have q: "trim (m_query mst) \<noteq> []" and
    r: "fst (fetch (''https://openlibrary.org/search.json?q='' @
                     encodeURIComponent (m_query mst)) mnet) = Rejected"
    by simp_all
  show "sent (snd (searchBooks mst mnet)) =
        sent mnet @
        [''https://openlibrary.org/search.json?q='' @ encodeURIComponent (m_query mst)]"
    by (simp add: searchBooks_net [OF q] fetch_sent)
  show "pending (snd (searchBooks mst mnet)) = tl (pending mnet)"
    by (simp add: searchBooks_net [OF q] fetch_pending)
  show "m_error (fst (searchBooks mst mnet)) = ''Network error. Please try again.''"
    by (simp add: searchBooks_failed [OF q r])
  show "m_loading (fst (searchBooks mst mnet)) = False"
    by (simp add: searchBooks_failed [OF q r])
qed

lemma trim_tolkien: "trim ''tolkien'' = ''tolkien''"
  by code_simp

lemma trim_blank: "trim ''   '' = []"
  by code_simp

theorem fetch_failure_reported_witness:
  "error (fst (fetchBooks (typing ''tolkien'' loaded)
                 \<lparr>pending = [server_error, found 1 [hobbit]], sent = []\<rparr>)) =
     ''Network error. Please try again.'' \<and>
   pending (snd (fetchBooks (typing ''tolkien'' loaded)
                   \<lparr>pending = [server_error, found 1 [hobbit]], sent = []\<rparr>)) =
     [found 1 [hobbit]] \<and>
   sent (snd (fetchBooks (typing ''tolkien'' loaded)
                \<lparr>pending = [server_error, found 1 [hobbit]], sent = []\<rparr>)) =
     [buildUrl (typing ''tolkien'' loaded)] \<and>
   m_error (fst (searchBooks
                   \<lparr>m_query = ''tolkien'', m_books = [dune], m_loading = False, m_error = []\<rparr>
                   \<lparr>pending = [Rejected, found 1 [hobbit]], sent = []\<rparr>)) =
     ''Network error. Please try again.'' \<and>
   pending (snd (searchBooks
                   \<lparr>m_query = ''tolkien'', m_books = [dune], m_loading = False, m_error = []\<rparr>
                   \<lparr>pending = [Rejected, found 1 [hobbit]], sent = []\<rparr>)) =
     [found 1 [hobbit]]"
  using fetch_failure_reported [of "typing ''tolkien'' loaded"
      "\<lparr>pending = [server_error, found 1 [hobbit]], sent = []\<rparr>"
      "\<lparr>m_query = ''tolkien'', m_books = [dune], m_loading = False, m_error = []\<rparr>"
      "\<lparr>pending = [Rejected, found 1 [hobbit]], sent = []\<rparr>"]
  by (simp add: fetch_def server_error_def trim_tolkien)

text \<open>
  Claim C9. When the trimmed query is empty, the callback of the debounced effect sends no
  request (the network is as before) and sets the results to the empty list, the total
  to 0, the error message to the empty string and the loading flag to false.
\<close>

theorem debounced_empty_query:
  assumes "trim (query st) = []"
  shows "snd (debounced st net) = net \<and>
         books (fst (debounced st net)) = [] \<and>
         total_st (fst (debounced st net)) = 0 \<and>
         error (fst (debounced st net)) = [] \<and>
         loading (fst (debounced st net)) = False"
  using assms by (simp add: debounced_def)

theorem debounced_empty_query_witness:
  "trim (query (typing ''   '' shrunk_total)) = [] \<and>
   snd (debounced (typing ''   '' shrunk_total) \<lparr>pending = [found 1 [hobbit]], sent = []\<rparr>) =
     \<lparr>pending = [found 1 [hobbit]], sent = []\<rparr> \<and>
   books (fst (debounced (typing ''   '' shrunk_total)
                 \<lparr>pending = [found 1 [hobbit]], sent = []\<rparr>)) = [] \<and>
   total_st (fst (debounced (typing ''   '' shrunk_total)
                    \<lparr>pending = [found 1 [hobbit]], sent = []\<rparr>)) = 0"
proof -
  have h: "trim (query (typing ''   '' shrunk_total)) = []"
    by (simp add: typing_def trim_blank)
  show ?thesis
    using h debounced_empty_query [OF h, of "\<lparr>pending = [found 1 [hobbit]], sent = []\<rparr>"]
    by simp
qed

section \<open>Properties of pagination\<close>

lemma totalPages_div: "totalPages st = max 1 (- ((- total_st st) div 20))"
proof -
  have "\<lceil>real_of_int (total_st st) / real_of_int 20\<rceil> = - ((- total_st st) div 20)"
    using ceiling_divide_eq_div [of "total_st st" 20, where ?'a = real] by simp
  then show ?thesis by (simp add: totalPages_def pageSize_def)
qed

lemma page_five_values: "page (fst page_five) = 5 \<and> total_st (fst page_five) = 100"
  by (simp add: page_five_def loaded_def typing_def BookFinder_load_def debounced_def
      trim_tolkien fetchBooks_def fetchBooks_try_def fetch_def found_def clickNext_def
      totalPages_div found_count_def Let_def)

lemma shrunk_total_values: "page shrunk_total = 5 \<and> total_st shrunk_total = 40"
  by (simp add: shrunk_total_def page_five_def loaded_def typing_def BookFinder_load_def
      debounced_def trim_tolkien fetchBooks_def fetchBooks_try_def fetch_def found_def
      clickNext_def totalPages_div found_count_def Let_def)

text \<open>
  Claim C10 as stated fails: in the sample session the page is 5 when the total shrinks to
  40 (2 pages, so the pagination is rendered), and Prev then yields page 4, above the 2
  pages.
\<close>

theorem pagination_counterexample:
  "1 \<le> page shrunk_total \<and> 1 < totalPages shrunk_total \<and>
   totalPages (clickPrev shrunk_total) < page (clickPrev shrunk_total)"
  using shrunk_total_values by (simp add: totalPages_div clickPrev_def)

text \<open>
  Claim C10, amended. \<open>totalPages\<close> is the maximum of 1 and the ceiling of total / 20, so
  that for a positive total the pages up to the last one hold the total and one page
  less does not. Prev yields max(1, p - 1), which is never below 1; Next yields
  min(totalPages, p + 1), which is never above \<open>totalPages\<close> and, from a page p of at
  least 1, never below 1. The page after Prev does not exceed \<open>totalPages\<close> when the page
  before did not exceed \<open>totalPages + 1\<close>.
\<close>

theorem pagination_bounds:
  "totalPages st = max 1 \<lceil>real_of_int (total_st st) / 20\<rceil> \<and>
   (0 < total_st st \<longrightarrow>
      20 * (totalPages st - 1) < total_st st \<and> total_st st \<le> 20 * totalPages st) \<and>
   page (clickPrev st) = max 1 (page st - 1) \<and>
   page (clickNext st) = min (totalPages st) (page st + 1) \<and>
   1 \<le> page (clickPrev st) \<and>
   page (clickNext st) \<le> totalPages (clickNext st) \<and>
   (1 \<le> page st \<longrightarrow> 1 \<le> page (clickNext st)) \<and>
   (page st \<le> totalPages st + 1 \<longrightarrow> page (clickPrev st) \<le> totalPages (clickPrev st))"
proof -
  have tp: "totalPages st = max 1 \<lceil>real_of_int (total_st st) / 20\<rceil>"
    by (simp add: totalPages_def pageSize_def)
  have keep: "totalPages (clickPrev st) = totalPages st"
    "totalPages (clickNext st) = totalPages st"
    by (simp_all add: totalPages_def clickPrev_def clickNext_def)
  have one: "1 \<le> totalPages st"
    by (simp add: totalPages_def)
  have bounds: "0 < total_st st \<longrightarrow>
      20 * (totalPages st - 1) < total_st st \<and> total_st st \<le> 20 * totalPages st"
    unfolding totalPages_div by (auto simp: max_def)
  have prev: "page (clickPrev st) = max 1 (page st - 1)"
    by (simp add: clickPrev_def)
  have nxt: "page (clickNext st) = min (totalPages st) (page st + 1)"
    by (simp add: clickNext_def)
  have "1 \<le> page (clickPrev st)"
    unfolding prev by simp
  moreover have "page (clickNext st) \<le> totalPages (clickNext st)"
    unfolding keep nxt by simp
  moreover have "1 \<le> page st \<longrightarrow> 1 \<le> page (clickNext st)"
    unfolding nxt using one by simp
  moreover have "page st \<le> totalPages st + 1 \<longrightarrow>
      page (clickPrev st) \<le> totalPages (clickPrev st)"
    unfolding keep prev using one by simp
  ultimately show ?thesis
    using tp bounds prev nxt by blast
qed

theorem pagination_bounds_witness:
  "0 < total_st (fst page_five) \<and> 1 \<le> page (fst page_five) \<and>
   page (fst page_five) \<le> totalPages (fst page_five) + 1 \<and>
   totalPages (fst page_five) = 5 \<and>
   page (clickPrev (fst page_five)) = 4 \<and>
   page (clickNext (fst page_five)) = 5"
  using pagination_bounds [of "fst page_five"] page_five_values
  by (simp add: totalPages_div)

section \<open>Properties of the URL\<close>

lemma hex_digit_cases:
  assumes "n < 16"
  shows "hex_val (hex_digit n) = Some n \<and> hex_digit n \<notin> set ''&=#?+''"
proof -
  from assms have "n \<in> {0, 1, 2, 3, 4, 5, 6, 7, 8, 9, 10, 11, 12, 13, 14, 15}"
    by simp arith
  then show ?thesis
    by (elim insertE emptyE) (simp_all add: hex_digit_def hex_val_def)
qed

lemma alphanumeric_plain: "alphanumeric c \<Longrightarrow> c \<notin> set ''&=#?+%''"
  by (auto simp: alphanumeric_def)

lemma nibbles: "of_char c div 16 < (16::nat)" "of_char c mod 16 < (16::nat)"
proof -
  have "of_char c < (256::nat)" by simp
  then show "of_char c div 16 < (16::nat)" by (simp add: less_mult_imp_div_less)
  show "of_char c mod 16 < (16::nat)" by simp
qed

lemma percent_decode_plain:
  "c \<noteq> CHR ''%'' \<Longrightarrow> percent_decode (c # cs) = c # percent_decode cs"
  by (cases cs rule: percent_decode.cases) (simp_all)

lemma percent_decode_escape:
  "percent_decode (percent_encode c @ cs) = c # percent_decode cs"
proof -
  let ?n = "of_char c :: nat"
  have lt: "?n div 16 < 16" "?n mod 16 < 16"
    by (rule nibbles)+
  have "16 * (?n div 16) + ?n mod 16 = ?n" by simp
  then have "char_of (16 * (?n div 16) + ?n mod 16) = c" by simp
  then show ?thesis
    using hex_digit_cases [OF lt(1)] hex_digit_cases [OF lt(2)]
    by (simp add: percent_encode_def del: set_simps)
qed

lemma percent_encode_chars: "x \<in> set (percent_encode c) \<Longrightarrow> x \<notin> set ''&=#?+''"
  using hex_digit_cases [OF nibbles(1), of c] hex_digit_cases [OF nibbles(2), of c]
  by (auto simp: percent_encode_def)

lemma urlencode_byte_chars: "x \<in> set (urlencode_byte c) \<Longrightarrow> x \<notin> set ''&=#?''"
proof (cases "c = CHR '' ''")
  case True
  assume "x \<in> set (urlencode_byte c)"
  with True show ?thesis by (simp add: urlencode_byte_def)
next
  case False
  assume x: "x \<in> set (urlencode_byte c)"
  show ?thesis
  proof (cases "alphanumeric c")
    case True
    with x False alphanumeric_plain [of c] show ?thesis
      by (simp add: urlencode_byte_def)
  next
    case no: False
    show ?thesis
    proof (cases "c \<in> set ''*-._''")
      case True
      with x False no show ?thesis by (auto simp: urlencode_byte_def)
    next
      case False
      with x no \<open>c \<noteq> CHR '' ''\<close> have "x \<in> set (percent_encode c)"
        by (simp add: urlencode_byte_def)
      then show ?thesis using percent_encode_chars [of x c] by simp
    qed
  qed
qed

lemma urlencode_chars: "x \<in> set (urlencode s) \<Longrightarrow> x \<notin> set ''&=#?''"
  using urlencode_byte_chars by (auto simp: urlencode_def)

lemma percent_encode_no_plus:
  "map (\<lambda>c. if c = CHR ''+'' then CHR '' '' else c) (percent_encode c) = percent_encode c"
  using percent_encode_chars [of _ c] by (intro map_idI) auto

lemma form_decode_byte:
  "form_decode (urlencode_byte c @ cs) = c # form_decode cs"
proof (cases "c = CHR '' ''")
  case True
  then show ?thesis
    by (simp add: form_decode_def urlencode_byte_def percent_decode_plain)
next
  case False
  show ?thesis
  proof (cases "alphanumeric c")
    case True
    with alphanumeric_plain [of c] have "c \<noteq> CHR ''%''" "c \<noteq> CHR ''+''" by auto
    with True False show ?thesis
      by (simp add: form_decode_def urlencode_byte_def percent_decode_plain)
  next
    case no: False
    show ?thesis
    proof (cases "c \<in> set ''*-._''")
      case True
      then have "c \<noteq> CHR ''%''" "c \<noteq> CHR ''+''" by auto
      with True False no show ?thesis
        by (simp add: form_decode_def urlencode_byte_def percent_decode_plain
            del: set_simps)
    next
      case no2: False
      with False no have "urlencode_byte c = percent_encode c"
        by (simp add: urlencode_byte_def)
      then show ?thesis
        by (simp add: form_decode_def percent_encode_no_plus percent_decode_escape)
    qed
  qed
qed

lemma form_decode_urlencode: "form_decode (urlencode s) = s"
proof (induction s)
  case Nil
  then show ?case by (simp add: form_decode_def urlencode_def)
next
  case (Cons c s)
  then show ?case
    using form_decode_byte [of c "urlencode s"] by (simp add: urlencode_def)
qed

lemma split_on_plain:
  "c \<notin> set s \<Longrightarrow> split_on c s = [s]"
  by (induction s) auto

lemma split_on_append:
  "c \<notin> set s \<Longrightarrow> split_on c (s @ c # t) = s # split_on c t"
  by (induction s) auto

lemma split_on_join:
  "xs \<noteq> [] \<Longrightarrow> \<forall>x \<in> set xs. c \<notin> set x \<Longrightarrow> split_on c (join [c] xs) = xs"
proof (induction xs)
  case Nil
  then show ?case by simp
next
  case (Cons x xs)
  show ?case
  proof (cases xs)
    case Nil
    with Cons.prems show ?thesis by (simp add: split_on_plain)
  next
    case (Cons y ys)
    with Cons.IH Cons.prems have "split_on c (join [c] (y # ys)) = y # ys" by simp
    with Cons Cons.prems show ?thesis by (simp add: split_on_append)
  qed
qed

lemma set_join: "set (join sep xs) \<subseteq> set sep \<union> \<Union> (set ` set xs)"
  by (induction sep xs rule: join.induct) auto

lemma pair_chars:
  "x \<in> set (urlencode n @ ''='' @ urlencode v) \<Longrightarrow> x \<notin> set ''&#?''"
  using urlencode_chars [of x n] urlencode_chars [of x v] by auto

lemma toString_chars: "x \<in> set (toString ps) \<Longrightarrow> x \<notin> set ''#?''"
proof -
  assume "x \<in> set (toString ps)"
  then have "x \<in> set ''&'' \<union>
      \<Union> (set ` set (map (\<lambda>(n, v). urlencode n @ ''='' @ urlencode v) ps))"
    unfolding toString_def using set_join by blast
  then show ?thesis
    using pair_chars by fastforce
qed

lemma decode_pair:
  "(form_decode (takeWhile (\<lambda>c. c \<noteq> CHR ''='') (urlencode n @ ''='' @ urlencode v)),
    form_decode (drop 1 (dropWhile (\<lambda>c. c \<noteq> CHR ''='') (urlencode n @ ''='' @ urlencode v))))
   = (n, v)"
proof -
  have "\<forall>x \<in> set (urlencode n). x \<noteq> CHR ''=''"
    using urlencode_chars [of _ n] by auto
  then have "takeWhile (\<lambda>c. c \<noteq> CHR ''='') (urlencode n @ ''='' @ urlencode v) = urlencode n"
    and "dropWhile (\<lambda>c. c \<noteq> CHR ''='') (urlencode n @ ''='' @ urlencode v) =
           ''='' @ urlencode v"
    by (simp_all add: takeWhile_append2 dropWhile_append2)
  then show ?thesis by (simp add: form_decode_urlencode)
qed

lemma parse_urlencoded_toString: "parse_urlencoded (toString ps) = ps"
proof (cases "ps = []")
  case True
  then show ?thesis by (simp add: parse_urlencoded_def toString_def)
next
  case False
  let ?enc = "\<lambda>(n, v). urlencode n @ ''='' @ urlencode v"
  have "\<forall>x \<in> set (map ?enc ps). CHR ''&'' \<notin> set x"
    using pair_chars by fastforce
  with False have "split_on CHR ''&'' (join ''&'' (map ?enc ps)) = map ?enc ps"
    by (intro split_on_join) simp_all
  moreover have "filter (\<lambda>bytes. bytes \<noteq> []) (map ?enc ps) = map ?enc ps"
    by (induction ps) auto
  moreover have
    "map (\<lambda>bytes. (form_decode (takeWhile (\<lambda>c. c \<noteq> CHR ''='') bytes),
                     form_decode (drop 1 (dropWhile (\<lambda>c. c \<noteq> CHR ''='') bytes))))
       (map ?enc ps) = ps"
    using decode_pair by (induction ps) auto
  ultimately show ?thesis
    by (simp add: parse_urlencoded_def toString_def)
qed

lemma searchParams_endpoint:
  "searchParams (''https://openlibrary.org/search.json?'' @ toString ps) = ps"
proof -
  have "\<forall>x \<in> set (toString ps). x \<noteq> CHR ''#'' \<and> x \<noteq> CHR ''?''"
    using toString_chars [of _ ps] by auto
  then have tw: "takeWhile (\<lambda>c. c \<noteq> CHR ''#'') (toString ps) = toString ps"
    by (simp add: takeWhile_eq_all_conv)
  show ?thesis
    by (simp add: searchParams_def tw parse_urlencoded_toString)
qed

lemma searchParams_buildUrl: "searchParams (buildUrl st) = buildUrl_params st"
  unfolding buildUrl_def by (rule searchParams_endpoint)

lemma buildUrl_params_eq:
  "buildUrl_params st =
     [(''page'', String (page st)),
      (if trim (query st) = [] then ''q''
       else if field st = ''title'' then ''title''
       else if field st = ''author'' then ''author''
       else if field st = ''subject'' then ''subject''
       else if field st = ''isbn'' then ''isbn''
       else ''q'', trim (query st))] @
     (if ebookOnly st then [(''has_fulltext'', ''true'')] else []) @
     (if lang st \<noteq> [] then [(''language'', lang st)] else []) @
     [(''fields'',
       ''key,title,author_name,cover_i,first_publish_year,ebook_access,has_fulltext,language,edition_count,subject'')]"
  by (simp add: buildUrl_params_def Let_def)

text \<open>
  Claim C3. For a query whose trimmed value is not empty, the URL is the fixed endpoint
  \<open>https://openlibrary.org/search.json\<close> followed by \<open>?\<close> and the serialization of its
  parameters, and among the parameters \<open>q\<close>, \<open>title\<close>, \<open>author\<close>, \<open>subject\<close> and \<open>isbn\<close>
  the URL has exactly one: the one that the field control selects (\<open>q\<close> for \<open>all\<close> and
  for any other value), with the trimmed query as its value.
\<close>

theorem buildUrl_query_param:
  assumes "trim (query st) \<noteq> []"
  shows "buildUrl st =
           ''https://openlibrary.org/search.json?'' @ toString (searchParams (buildUrl st)) \<and>
         filter (\<lambda>(n, v). n \<in> set [''q'', ''title'', ''author'', ''subject'', ''isbn''])
           (searchParams (buildUrl st)) =
           [(if field st = ''title'' then ''title''
             else if field st = ''author'' then ''author''
             else if field st = ''subject'' then ''subject''
             else if field st = ''isbn'' then ''isbn''
             else ''q'', trim (query st))]"
proof
  show "buildUrl st =
      ''https://openlibrary.org/search.json?'' @ toString (searchParams (buildUrl st))"
    unfolding searchParams_buildUrl by (simp add: buildUrl_def)
  show "filter (\<lambda>(n, v). n \<in> set [''q'', ''title'', ''author'', ''subject'', ''isbn''])
           (searchParams (buildUrl st)) =
           [(if field st = ''title'' then ''title''
             else if field st = ''author'' then ''author''
             else if field st = ''subject'' then ''subject''
             else if field st = ''isbn'' then ''isbn''
             else ''q'', trim (query st))]"
    unfolding searchParams_buildUrl buildUrl_params_eq using assms by simp
qed

lemma trim_Tolkien: "trim ''  Tolkien '' = ''Tolkien''"
  by code_simp

lemma tolkien_by_author_controls:
  "query tolkien_by_author = ''  Tolkien '' \<and> field tolkien_by_author = ''author'' \<and>
   \<not> ebookOnly tolkien_by_author \<and> lang tolkien_by_author = [] \<and>
   page tolkien_by_author = 1"
  by (simp add: tolkien_by_author_def typing_def loaded_def BookFinder_load_def)

theorem buildUrl_query_param_witness:
  "trim (query tolkien_by_author) = ''Tolkien'' \<and>
   filter (\<lambda>(n, v). n \<in> set [''q'', ''title'', ''author'', ''subject'', ''isbn''])
     (searchParams (buildUrl tolkien_by_author)) = [(''author'', ''Tolkien'')]"
proof -
  have h: "trim (query tolkien_by_author) \<noteq> []"
    by (simp add: tolkien_by_author_controls trim_Tolkien)
  show ?thesis
    using buildUrl_query_param [OF h]
    by (simp add: tolkien_by_author_controls trim_Tolkien)
qed

text \<open>
  Claim C4. For every state of the five controls, the URL has the parameter
  \<open>has_fulltext\<close>, with the value \<open>true\<close>, exactly when the ebook-only flag is set; the
  parameter \<open>language\<close>, with the language code as its value, exactly when the code is
  not empty; always the parameter \<open>page\<close> with the page number in decimal; always the
  parameter \<open>fields\<close> with the fixed list of ten field names; and no parameter twice.
\<close>

theorem buildUrl_filters:
  "get_param (searchParams (buildUrl st)) ''has_fulltext'' =
     (if ebookOnly st then Some ''true'' else None) \<and>
   get_param (searchParams (buildUrl st)) ''language'' =
     (if lang st \<noteq> [] then Some (lang st) else None) \<and>
   get_param (searchParams (buildUrl st)) ''page'' = Some (String (page st)) \<and>
   get_param (searchParams (buildUrl st)) ''fields'' =
     Some ''key,title,author_name,cover_i,first_publish_year,ebook_access,has_fulltext,language,edition_count,subject'' \<and>
   distinct (map fst (searchParams (buildUrl st)))"
  unfolding searchParams_buildUrl buildUrl_params_eq get_param_def by simp

lemma english_ebooks_controls:
  "query english_ebooks = ''chess'' \<and> field english_ebooks = ''subject'' \<and>
   ebookOnly english_ebooks \<and> lang english_ebooks = ''eng'' \<and> page english_ebooks = 3"
  by (simp add: english_ebooks_def typing_def loaded_def BookFinder_load_def)

lemma String_3: "String 3 = ''3''"
  by code_simp

theorem buildUrl_filters_witness:
  "get_param (searchParams (buildUrl english_ebooks)) ''has_fulltext'' = Some ''true'' \<and>
   get_param (searchParams (buildUrl english_ebooks)) ''language'' = Some ''eng'' \<and>
   get_param (searchParams (buildUrl english_ebooks)) ''page'' = Some ''3'' \<and>
   get_param (searchParams (buildUrl tolkien_by_author)) ''has_fulltext'' = None \<and>
   get_param (searchParams (buildUrl tolkien_by_author)) ''language'' = None"
  using buildUrl_filters [of english_ebooks] buildUrl_filters [of tolkien_by_author]
  by (simp add: english_ebooks_controls tolkien_by_author_controls String_3)

lemma trim_chess: "trim ''chess'' = ''chess''"
  by code_simp

lemma urlencode_fields:
  "urlencode ''key,title,author_name,cover_i,first_publish_year,ebook_access,has_fulltext,language,edition_count,subject'' =
   ''key%2Ctitle%2Cauthor_name%2Ccover_i%2Cfirst_publish_year%2Cebook_access%2Chas_fulltext%2Clanguage%2Cedition_count%2Csubject''"
  by code_simp

lemma buildUrl_english_ebooks:
  "buildUrl english_ebooks =
   ''https://openlibrary.org/search.json?page=3&subject=chess&has_fulltext=true&language=eng&fields=key%2Ctitle%2Cauthor_name%2Ccover_i%2Cfirst_publish_year%2Cebook_access%2Chas_fulltext%2Clanguage%2Cedition_count%2Csubject''"
proof -
  have "urlencode ''page'' = ''page''" "urlencode ''3'' = ''3''"
    "urlencode ''subject'' = ''subject''" "urlencode ''chess'' = ''chess''"
    "urlencode ''has_fulltext'' = ''has_fulltext''" "urlencode ''true'' = ''true''"
    "urlencode ''language'' = ''language''" "urlencode ''eng'' = ''eng''"
    "urlencode ''fields'' = ''fields''"
    by code_simp+
  then show ?thesis
    by (simp add: buildUrl_def buildUrl_params_eq english_ebooks_controls trim_chess String_3
        toString_def urlencode_fields)
qed

section \<open>Properties of the stored saved list\<close>

lemma effect_written:
  "\<not> denied ls \<Longrightarrow> accepts ls k (stringify J v) \<Longrightarrow>
     items (useLocalStorage_effect J ls k v) k = Some (stringify J v)"
  by (simp add: useLocalStorage_effect_def useLocalStorage_effect_try_def setItem_def)

lemma effect_thrown:
  "useLocalStorage_effect_try J ls k v = Inl e \<Longrightarrow> useLocalStorage_effect J ls k v = ls"
  by (simp add: useLocalStorage_effect_def)

lemma init_parsed:
  "\<not> denied ls \<Longrightarrow> items ls k = Some raw \<Longrightarrow> raw \<noteq> [] \<Longrightarrow> parse J raw = Some v \<Longrightarrow>
     useLocalStorage_init J ls k initialValue = v"
  by (simp add: useLocalStorage_init_def useLocalStorage_init_try_def getItem_def)

lemma init_absent:
  "items ls k = None \<Longrightarrow> useLocalStorage_init J ls k initialValue = initialValue"
  by (simp add: useLocalStorage_init_def useLocalStorage_init_try_def getItem_def)

lemma init_invalid:
  "items ls k = Some raw \<Longrightarrow> parse J raw = None \<Longrightarrow>
     useLocalStorage_init J ls k initialValue = initialValue"
  by (simp add: useLocalStorage_init_def useLocalStorage_init_try_def getItem_def)

lemma saved_on_full_values:
  "saved (fst saved_on_full) = [hobbit] \<and> items (snd saved_on_full) saved_key = Some ''[]''"
  by (simp add: saved_on_full_def full_storage_def storage_of_def BookFinder_load_def
      clickSave_def useLocalStorage_init_def useLocalStorage_init_try_def getItem_def
      useLocalStorage_effect_def useLocalStorage_effect_try_def setItem_def table_JSON_def
      toggleSave_def)

text \<open>
  Claim C2 as stated fails: loaded from a storage that accepts no write, the component
  saves a book, and the stored entry is still the serialized empty list.
\<close>

theorem saved_list_mirrored_counterexample:
  "items (snd saved_on_full) saved_key \<noteq>
     Some (stringify table_JSON (saved (fst saved_on_full)))"
  using saved_on_full_values by (simp add: table_JSON_def hobbit_def doc_def)

text \<open>
  Claim C2, amended. After a call of \<open>toggleSave\<close> whose write to local storage is not
  refused (access is not denied and the browser accepts the item), the entry under
  \<open>bookfinder.saved\<close> is the JSON serialization of the saved list after the call. On load,
  when access is not denied and the entry under that key is a non-empty string that
  \<open>JSON.parse\<close> parses, the saved list is the parsed value.
\<close>

theorem saved_list_mirrored:
  "(\<not> denied ls \<and> accepts ls saved_key (stringify J (toggleSave book (saved st))) \<longrightarrow>
      saved (fst (clickSave J book (st, ls))) = toggleSave book (saved st) \<and>
      items (snd (clickSave J book (st, ls))) saved_key =
        Some (stringify J (saved (fst (clickSave J book (st, ls)))))) \<and>
   (\<not> denied ls \<and> items ls saved_key = Some raw \<and> raw \<noteq> [] \<and> parse J raw = Some v \<longrightarrow>
      saved (fst (BookFinder_load J ls)) = v)"
proof (intro conjI impI)
  assume a: "\<not> denied ls \<and> accepts ls saved_key (stringify J (toggleSave book (saved st)))"
  show "saved (fst (clickSave J book (st, ls))) = toggleSave book (saved st)"
    by (simp add: clickSave_def)
  show "items (snd (clickSave J book (st, ls))) saved_key =
        Some (stringify J (saved (fst (clickSave J book (st, ls)))))"
    using a by (simp add: clickSave_def effect_written)
next
  assume "\<not> denied ls \<and> items ls saved_key = Some raw \<and> raw \<noteq> [] \<and> parse J raw = Some v"
  then show "saved (fst (BookFinder_load J ls)) = v"
    by (simp add: BookFinder_load_def init_parsed)
qed

theorem saved_list_mirrored_witness:
  "items (snd (clickSave table_JSON hobbit (loaded, storage_of [] True))) saved_key =
     Some ''[hobbit]'' \<and>
   saved (fst (BookFinder_load table_JSON (storage_of [(saved_key, ''[hobbit]'')] True))) =
     [hobbit]"
  using saved_list_mirrored [of "storage_of [] True" table_JSON hobbit loaded
      "''[hobbit]''" "[hobbit]"]
    saved_list_mirrored [of "storage_of [(saved_key, ''[hobbit]'')] True" table_JSON hobbit
      loaded "''[hobbit]''" "[hobbit]"]
  by (simp add: storage_of_def table_JSON_def loaded_def BookFinder_load_def
      useLocalStorage_init_def useLocalStorage_init_try_def getItem_def toggleSave_def)

text \<open>
  Claim C8. On load, when the key \<open>bookfinder.saved\<close> is absent, or its content makes
  \<open>JSON.parse\<close> throw, the saved list is the empty list. When the write to local storage
  throws during a call of \<open>toggleSave\<close>, the call still ends normally: the saved list is
  the toggled one and the storage is left as it was.
\<close>

theorem storage_failures_tolerated:
  "(items ls saved_key = None \<or>
    (\<exists>raw. items ls saved_key = Some raw \<and> parse J raw = None) \<longrightarrow>
      saved (fst (BookFinder_load J ls)) = []) \<and>
   ((\<exists>e. setItem ls saved_key (stringify J (toggleSave book (saved st))) = Inl e) \<longrightarrow>
      saved (fst (clickSave J book (st, ls))) = toggleSave book (saved st) \<and>
      snd (clickSave J book (st, ls)) = ls)"
proof (intro conjI impI)
  assume "items ls saved_key = None \<or>
    (\<exists>raw. items ls saved_key = Some raw \<and> parse J raw = None)"
  then show "saved (fst (BookFinder_load J ls)) = []"
    by (auto simp: BookFinder_load_def init_absent init_invalid)
next
  assume "\<exists>e. setItem ls saved_key (stringify J (toggleSave book (saved st))) = Inl e"
  then obtain e where
    "useLocalStorage_effect_try J ls saved_key (toggleSave book (saved st)) = Inl e"
    by (auto simp: useLocalStorage_effect_try_def)
  then have "useLocalStorage_effect J ls saved_key (toggleSave book (saved st)) = ls"
    by (rule effect_thrown)
  then show "snd (clickSave J book (st, ls)) = ls"
    by (simp add: clickSave_def)
  show "saved (fst (clickSave J book (st, ls))) = toggleSave book (saved st)"
    by (simp add: clickSave_def)
qed

theorem storage_failures_tolerated_witness:
  "saved (fst (BookFinder_load table_JSON (storage_of [] True))) = [] \<and>
   saved (fst (BookFinder_load table_JSON (storage_of [(saved_key, ''{not json'')] True))) = [] \<and>
   setItem full_storage saved_key (stringify table_JSON (toggleSave hobbit [])) =
     Inl QuotaExceededError \<and>
   saved (fst (clickSave table_JSON hobbit (loaded, full_storage))) = [hobbit] \<and>
   snd (clickSave table_JSON hobbit (loaded, full_storage)) = full_storage"
proof -
  have l: "saved loaded = []"
    by (simp add: loaded_def BookFinder_load_def storage_of_def init_absent)
  have w: "setItem full_storage saved_key (stringify table_JSON (toggleSave hobbit [])) =
     Inl QuotaExceededError"
    by (simp add: setItem_def full_storage_def storage_of_def)
  show ?thesis
    using storage_failures_tolerated [of "storage_of [] True" table_JSON hobbit loaded]
      storage_failures_tolerated [of "storage_of [(saved_key, ''{not json'')] True" table_JSON
        hobbit loaded]
      storage_failures_tolerated [of full_storage table_JSON hobbit loaded] l w
    by (simp add: storage_of_def table_JSON_def toggleSave_def)
qed

end
